theory Spec2Isabelle
  imports Complex_Main
begin

section \<open>Numbers and shared enumerations\<close>

text \<open>
  The repository holds two React components: the autonomous bot \<^verbatim>\<open>TradingBot\<close>
  (\<^verbatim>\<open>src/unnamed/part_000\<close>) and the manual simulator \<^verbatim>\<open>Home\<close>
  (\<^verbatim>\<open>src/app/page.tsx\<close>). Both compute on JavaScript numbers. Here a number is a
  \<^typ>\<open>real\<close>: the arithmetic is exact, so rounding of IEEE doubles, \<^verbatim>\<open>NaN\<close> and
  the infinities are outside the model. The decimal constants of the source
  (\<^verbatim>\<open>0.15\<close>, \<^verbatim>\<open>0.92\<close>, ...) are the rationals they denote.

  Definitions of the autonomous bot keep the source's names. Where the manual simulator
  declares the same name, its definition carries the prefix \<open>home_\<close> (the component
  is called \<^verbatim>\<open>Home\<close>). Record fields carry a prefix naming their record.
\<close>

datatype signal = BUY | SELL | HOLD

section \<open>Autonomous bot: configuration\<close>

text \<open>The object \<^verbatim>\<open>CONFIG\<close> of part_000, one constant per key.\<close>

definition CONFIG_INITIAL_BALANCE :: real where "CONFIG_INITIAL_BALANCE = 1000"
definition CONFIG_POSITION_SIZE :: real where "CONFIG_POSITION_SIZE = 15 / 100"
definition CONFIG_MAX_POSITIONS :: nat where "CONFIG_MAX_POSITIONS = 4"
definition CONFIG_STOP_LOSS :: real where "CONFIG_STOP_LOSS = 3 / 100"
definition CONFIG_TAKE_PROFIT :: real where "CONFIG_TAKE_PROFIT = 8 / 100"
definition CONFIG_RSI_BUY :: real where "CONFIG_RSI_BUY = 35"
definition CONFIG_RSI_SELL :: real where "CONFIG_RSI_SELL = 70"
definition CONFIG_MIN_CHANGE_BUY :: real where "CONFIG_MIN_CHANGE_BUY = - 3"

section \<open>Autonomous bot: indicator and signal\<close>

text \<open>
  \<^verbatim>\<open>calculateRSI(prices, period = 14)\<close>. The \<^verbatim>\<open>for\<close> loop runs \<open>i\<close> from
  \<open>prices.length - period\<close> up to \<open>prices.length - 1\<close> and reads \<open>prices[i]\<close>
  and \<open>prices[i - 1]\<close>; the guard before it makes \<open>i - 1\<close> a valid index. The only
  call of the source uses the default period; for \<open>period = 0\<close> the source divides
  zero by zero, which this model does not follow.
\<close>

function rsi_loop :: "real list \<Rightarrow> nat \<Rightarrow> real \<Rightarrow> real \<Rightarrow> real \<times> real" where
  "rsi_loop prices i gains losses =
     (if i < length prices then
        (let change = prices ! i - prices ! (i - 1) in
         if change > 0 then rsi_loop prices (i + 1) (gains + change) losses
         else rsi_loop prices (i + 1) gains (losses - change))
      else (gains, losses))"
  by pat_completeness auto
termination
  by (relation "measure (\<lambda>(prices, i, gains, losses). length prices - i)") auto

declare rsi_loop.simps [simp del]

definition calculateRSI :: "real list \<Rightarrow> nat \<Rightarrow> real" where
  "calculateRSI prices period =
     (if length prices < period + 1 then 50
      else
        (let (gains, losses) = rsi_loop prices (length prices - period) 0 0;
             avgGain = gains / real period;
             avgLoss = losses / real period
         in if avgLoss = 0 then 100
            else (let rs = avgGain / avgLoss in 100 - 100 / (1 + rs))))"

text \<open>\<^verbatim>\<open>getSignal(rsi, change24h)\<close>: the BUY test comes first.\<close>

definition getSignal :: "real \<Rightarrow> real \<Rightarrow> signal" where
  "getSignal rsi change24h =
     (if rsi < CONFIG_RSI_BUY \<and> change24h < CONFIG_MIN_CHANGE_BUY then BUY
      else if rsi > CONFIG_RSI_SELL then SELL
      else HOLD)"

section \<open>Autonomous bot: data\<close>

text \<open>
  The interfaces \<^verbatim>\<open>Token\<close>, \<^verbatim>\<open>Position\<close> and \<^verbatim>\<open>Trade\<close> of part_000. The
  constant field \<^verbatim>\<open>side: 'LONG'\<close>, the \<^verbatim>\<open>Date\<close> stamps \<^verbatim>\<open>openedAt\<close> and
  \<^verbatim>\<open>closedAt\<close> and the display log (\<^verbatim>\<open>addLog\<close>) are left out: nothing reads them
  back. \<^verbatim>\<open>Date.now()\<close> is a clock value handed to the function that reads it.
\<close>

datatype reason = TP | SL | SIGNAL

datatype result = WIN | LOSS

record token =
  tok_symbol :: string
  tok_name :: string
  tok_price :: real
  tok_prevPrice :: real
  tok_change24h :: real
  tok_rsi :: real
  tok_signal :: signal

record position =
  pos_id :: nat
  pos_symbol :: string
  pos_entryPrice :: real
  pos_currentPrice :: real
  pos_quantity :: real
  pos_valueEUR :: real
  pos_pnl :: real
  pos_pnlPercent :: real
  pos_stopLoss :: real
  pos_takeProfit :: real

record trade =
  trd_id :: nat
  trd_symbol :: string
  trd_entryPrice :: real
  trd_exitPrice :: real
  trd_quantity :: real
  trd_pnl :: real
  trd_pnlPercent :: real
  trd_result :: result
  trd_reason :: reason

record token_cfg =
  cfg_id :: string
  cfg_symbol :: string
  cfg_name :: string

definition TOKENS_CONFIG :: "token_cfg list" where
  "TOKENS_CONFIG =
     [\<lparr>cfg_id = ''solana'', cfg_symbol = ''SOL'', cfg_name = ''Solana''\<rparr>,
      \<lparr>cfg_id = ''bonk'', cfg_symbol = ''BONK'', cfg_name = ''Bonk''\<rparr>,
      \<lparr>cfg_id = ''dogwifcoin'', cfg_symbol = ''WIF'', cfg_name = ''dogwifhat''\<rparr>,
      \<lparr>cfg_id = ''jupiter-exchange-solana'', cfg_symbol = ''JUP'', cfg_name = ''Jupiter''\<rparr>,
      \<lparr>cfg_id = ''popcat'', cfg_symbol = ''POPCAT'', cfg_name = ''Popcat''\<rparr>,
      \<lparr>cfg_id = ''render-token'', cfg_symbol = ''RENDER'', cfg_name = ''Render''\<rparr>]"

text \<open>
  The price provider's JSON answer: an object from token id to an object that may hold
  \<^verbatim>\<open>usd\<close> and \<^verbatim>\<open>usd_24h_change\<close>. The source reads it as
  \<^verbatim>\<open>data[t.id]?.usd || 0\<close>: a missing entry, a missing field and the number zero all
  give zero.
\<close>

record api_quote =
  usd :: "real option"
  usd_24h_change :: "real option"

type_synonym api_data = "string \<Rightarrow> api_quote option"

definition or_zero :: "real option \<Rightarrow> real" where
  "or_zero v = (case v of None \<Rightarrow> 0 | Some x \<Rightarrow> x)"

definition data_usd :: "api_data \<Rightarrow> string \<Rightarrow> real" where
  "data_usd data i = or_zero (case data i of None \<Rightarrow> None | Some q \<Rightarrow> usd q)"

definition data_change :: "api_data \<Rightarrow> string \<Rightarrow> real" where
  "data_change data i = or_zero (case data i of None \<Rightarrow> None | Some q \<Rightarrow> usd_24h_change q)"

text \<open>
  The component's state: the \<^verbatim>\<open>useState\<close> cells \<^verbatim>\<open>balance\<close>, \<^verbatim>\<open>positions\<close>,
  \<^verbatim>\<open>trades\<close>, \<^verbatim>\<open>tokens\<close>, \<^verbatim>\<open>isRunning\<close> and the \<^verbatim>\<open>useRef\<close> cell
  \<^verbatim>\<open>priceHistory\<close>. A setter called with an updater function
  (\<^verbatim>\<open>setBalance(prev => prev + x)\<close>) acts on the running state; a plain read of
  \<^verbatim>\<open>balance\<close> or \<^verbatim>\<open>positions\<close> inside a handler yields the value the handler
  started with, which stays the same until the handler returns. A handler is taken to
  start from the latest state.
\<close>

record bot =
  balance :: real
  positions :: "position list"
  trades :: "trade list"
  tokens :: "token list"
  isRunning :: bool
  priceHistory :: "string \<Rightarrow> real list option"

definition bot_init :: bot where
  "bot_init =
     \<lparr>balance = CONFIG_INITIAL_BALANCE, positions = [], trades = [], tokens = [],
      isRunning = False, priceHistory = Map.empty\<rparr>"

section \<open>Autonomous bot: opening positions\<close>

text \<open>
  \<^verbatim>\<open>openPosition(token)\<close> sizes the trade from \<^verbatim>\<open>balance\<close> as read by the handler
  (the argument \<open>balance_c\<close>) and debits the running state.
\<close>

definition openPosition :: "nat \<Rightarrow> real \<Rightarrow> token \<Rightarrow> bot \<Rightarrow> bot" where
  "openPosition now balance_c token st =
     (let tradeValue = min (balance_c * CONFIG_POSITION_SIZE) (balance_c - 10) in
      if tradeValue < 20 then st
      else
        (let quantity = tradeValue / tok_price token;
             position =
               \<lparr>pos_id = now, pos_symbol = tok_symbol token,
                pos_entryPrice = tok_price token, pos_currentPrice = tok_price token,
                pos_quantity = quantity, pos_valueEUR = tradeValue,
                pos_pnl = 0, pos_pnlPercent = 0,
                pos_stopLoss = tok_price token * (1 - CONFIG_STOP_LOSS),
                pos_takeProfit = tok_price token * (1 + CONFIG_TAKE_PROFIT)\<rparr>
         in st\<lparr>positions := positions st @ [position],
                balance := balance st - tradeValue\<rparr>))"

text \<open>
  The body of the \<^verbatim>\<open>forEach\<close> in \<^verbatim>\<open>processSignals\<close>, for one token;
  \<open>positions_c\<close> and \<open>balance_c\<close> are \<^verbatim>\<open>positions\<close> and \<^verbatim>\<open>balance\<close> as the
  handler reads them.
\<close>

definition processSignal :: "nat \<Rightarrow> position list \<Rightarrow> real \<Rightarrow> token \<Rightarrow> bot \<Rightarrow> bot" where
  "processSignal now positions_c balance_c token st =
     (if tok_signal token = BUY \<and> tok_price token > 0 then
        (let hasPosition = list_ex (\<lambda>p. pos_symbol p = tok_symbol token) positions_c in
         if \<not> hasPosition \<and> length positions_c < CONFIG_MAX_POSITIONS \<and> balance_c > 50
         then openPosition now balance_c token st
         else st)
      else st)"

fun processSignals_loop :: "nat \<Rightarrow> position list \<Rightarrow> real \<Rightarrow> token list \<Rightarrow> bot \<Rightarrow> bot" where
  "processSignals_loop now positions_c balance_c [] st = st"
| "processSignals_loop now positions_c balance_c (token # rest) st =
     processSignals_loop now positions_c balance_c rest
       (processSignal now positions_c balance_c token st)"

definition processSignals :: "nat \<Rightarrow> token list \<Rightarrow> bot \<Rightarrow> bot" where
  "processSignals now currentTokens st =
     processSignals_loop now (positions st) (balance st) currentTokens st"

section \<open>Autonomous bot: closing positions\<close>

text \<open>The object literal \<^verbatim>\<open>trade\<close> built by \<^verbatim>\<open>closeTrade\<close>.\<close>

definition mkTrade :: "position \<Rightarrow> real \<Rightarrow> reason \<Rightarrow> trade" where
  "mkTrade pos exitPrice r =
     (let pnl = (exitPrice - pos_entryPrice pos) * pos_quantity pos;
          pnlPercent = ((exitPrice - pos_entryPrice pos) / pos_entryPrice pos) * 100
      in \<lparr>trd_id = pos_id pos, trd_symbol = pos_symbol pos,
          trd_entryPrice = pos_entryPrice pos, trd_exitPrice = exitPrice,
          trd_quantity = pos_quantity pos, trd_pnl = pnl, trd_pnlPercent = pnlPercent,
          trd_result = (if pnl \<ge> 0 then WIN else LOSS), trd_reason = r\<rparr>)"

definition closeTrade :: "position \<Rightarrow> real \<Rightarrow> reason \<Rightarrow> bot \<Rightarrow> bot" where
  "closeTrade pos exitPrice r st =
     (let pnl = (exitPrice - pos_entryPrice pos) * pos_quantity pos;
          returnValue = pos_valueEUR pos + pnl
      in st\<lparr>trades := mkTrade pos exitPrice r # trades st,
             balance := balance st + returnValue\<rparr>)"

text \<open>
  The body of the \<^verbatim>\<open>forEach\<close> in \<^verbatim>\<open>checkPositions\<close>, for one position: the list
  \<^verbatim>\<open>stillOpen\<close> and the state that \<^verbatim>\<open>closeTrade\<close> changes are threaded through.
\<close>

definition checkPosition :: "token list \<Rightarrow> position \<Rightarrow> position list \<times> bot \<Rightarrow> position list \<times> bot" where
  "checkPosition currentTokens pos acc =
     (let (stillOpen, st) = acc in
      case find (\<lambda>t. tok_symbol t = pos_symbol pos) currentTokens of
        None \<Rightarrow> (stillOpen @ [pos], st)
      | Some token \<Rightarrow>
          (let currentPrice = tok_price token;
               pnl = (currentPrice - pos_entryPrice pos) * pos_quantity pos;
               pnlPercent = ((currentPrice - pos_entryPrice pos) / pos_entryPrice pos) * 100
           in if currentPrice \<le> pos_stopLoss pos then
                (stillOpen, closeTrade pos currentPrice SL st)
              else if currentPrice \<ge> pos_takeProfit pos then
                (stillOpen, closeTrade pos currentPrice TP st)
              else if tok_signal token = SELL \<and> pnl > 0 then
                (stillOpen, closeTrade pos currentPrice SIGNAL st)
              else
                (stillOpen @ [pos\<lparr>pos_currentPrice := currentPrice, pos_pnl := pnl,
                                   pos_pnlPercent := pnlPercent\<rparr>], st)))"

fun checkPositions_loop :: "token list \<Rightarrow> position list \<Rightarrow> position list \<times> bot \<Rightarrow> position list \<times> bot" where
  "checkPositions_loop currentTokens [] acc = acc"
| "checkPositions_loop currentTokens (pos # rest) acc =
     checkPositions_loop currentTokens rest (checkPosition currentTokens pos acc)"

definition checkPositions :: "token list \<Rightarrow> bot \<Rightarrow> bot" where
  "checkPositions currentTokens st =
     (let (stillOpen, st') = checkPositions_loop currentTokens (positions st) ([], st)
      in st'\<lparr>positions := stillOpen\<rparr>)"

section \<open>Autonomous bot: the tick and the buttons\<close>

text \<open>
  The callback of \<^verbatim>\<open>TOKENS_CONFIG.map\<close> in \<^verbatim>\<open>fetchPrices\<close>, for one configured
  token: it appends the price to the symbol's history, drops the oldest entry beyond 50,
  and computes the indicator and the signal.
\<close>

definition push_history :: "real \<Rightarrow> real list option \<Rightarrow> real list" where
  "push_history price h =
     (let xs = (case h of None \<Rightarrow> [] | Some ys \<Rightarrow> ys) @ [price]
      in if length xs > 50 then tl xs else xs)"

definition updateToken ::
  "api_data \<Rightarrow> token list \<Rightarrow> token_cfg \<Rightarrow> (string \<Rightarrow> real list option) \<Rightarrow>
     token \<times> (string \<Rightarrow> real list option)" where
  "updateToken data tokens_c t hist =
     (let price = data_usd data (cfg_id t);
          change24h = data_change data (cfg_id t);
          h = push_history price (hist (cfg_symbol t));
          rsi = calculateRSI h 14;
          sig = getSignal rsi change24h;
          prevPrice =
            (case find (\<lambda>tok. tok_symbol tok = cfg_symbol t) tokens_c of
               None \<Rightarrow> price
             | Some tok \<Rightarrow> if tok_price tok = 0 then price else tok_price tok)
      in (\<lparr>tok_symbol = cfg_symbol t, tok_name = cfg_name t, tok_price = price,
           tok_prevPrice = prevPrice, tok_change24h = change24h, tok_rsi = rsi,
           tok_signal = sig\<rparr>,
          hist(cfg_symbol t \<mapsto> h)))"

fun updateTokens ::
  "api_data \<Rightarrow> token list \<Rightarrow> token_cfg list \<Rightarrow> (string \<Rightarrow> real list option) \<Rightarrow>
     token list \<times> (string \<Rightarrow> real list option)" where
  "updateTokens data tokens_c [] hist = ([], hist)"
| "updateTokens data tokens_c (t # ts) hist =
     (let (tok, hist1) = updateToken data tokens_c t hist;
          (toks, hist2) = updateTokens data tokens_c ts hist1
      in (tok # toks, hist2))"

text \<open>
  \<^verbatim>\<open>fetchPrices\<close>. The answer of the provider is \<open>None\<close> when the request or the
  parsing of its JSON throws: the \<^verbatim>\<open>catch\<close> block only logs, and nothing was changed
  before the throw.
\<close>

definition fetchPrices :: "nat \<Rightarrow> api_data option \<Rightarrow> bot \<Rightarrow> bot" where
  "fetchPrices now response st =
     (case response of
        None \<Rightarrow> st
      | Some data \<Rightarrow>
          (let (updatedTokens, hist) =
                 updateTokens data (tokens st) TOKENS_CONFIG (priceHistory st);
               st1 = st\<lparr>tokens := updatedTokens, priceHistory := hist\<rparr>
           in if isRunning st then
                checkPositions updatedTokens (processSignals now updatedTokens st1)
              else st1))"

text \<open>
  \<^verbatim>\<open>toggleBot\<close> flips \<^verbatim>\<open>isRunning\<close> (and starts or clears the interval timer, whose
  firings are the ticks); \<^verbatim>\<open>resetBot\<close> restores the initial cells. The timer of the
  source keeps calling the \<^verbatim>\<open>fetchPrices\<close> of the render in which the bot was
  started, which reads \<^verbatim>\<open>isRunning\<close> as false; the model lets every tick read the
  current cells, so that it has the runs in which the bot trades, and the balance,
  positions and trades of every run of the source are those of a run of the model.
\<close>

definition toggleBot :: "bot \<Rightarrow> bot" where
  "toggleBot st = st\<lparr>isRunning := \<not> isRunning st\<rparr>"




section \<open>Manual simulator: data\<close>

text \<open>
  The interfaces of page.tsx. \<^verbatim>\<open>Trade extends Position\<close> is a record extension. The
  \<^verbatim>\<open>status\<close> strings of the source are \<^verbatim>\<open>'OPEN'\<close>, \<^verbatim>\<open>'CLOSED'\<close>, and
  \<^verbatim>\<open>'SL HIT'\<close> and \<^verbatim>\<open>'TP HIT'\<close> followed by an emoji each; they are the four
  constructors of \<open>status\<close>. The optional fields \<^verbatim>\<open>closePrice\<close> and \<^verbatim>\<open>closePnL\<close>
  are options. The ISO \<^verbatim>\<open>timestamp\<close> string is left out.
\<close>

definition INITIAL_BALANCE :: real where "INITIAL_BALANCE = 1000"
definition STOP_LOSS :: real where "STOP_LOSS = 25 / 1000"
definition TAKE_PROFIT :: real where "TAKE_PROFIT = 6 / 100"
definition EUR_RATE :: real where "EUR_RATE = 92 / 100"

datatype status = OPEN | SL_HIT | TP_HIT | CLOSED

record home_token =
  mtok_id :: string
  mtok_symbol :: string
  mtok_name :: string
  mtok_price :: real
  mtok_change24h :: real
  mtok_tier :: string

record home_position =
  mpos_id :: nat
  mpos_symbol :: string
  mpos_entryPrice :: real
  mpos_quantity :: real
  mpos_valueEUR :: real
  mpos_stopLoss :: real
  mpos_takeProfit :: real

record home_trade = home_position +
  mtrd_status :: status
  mtrd_closePrice :: "real option"
  mtrd_closePnL :: "real option"

record home_token_cfg =
  mcfg_id :: string
  mcfg_symbol :: string
  mcfg_name :: string
  mcfg_tier :: string

definition TOKENS :: "home_token_cfg list" where
  "TOKENS =
     [\<lparr>mcfg_id = ''solana'', mcfg_symbol = ''SOL'', mcfg_name = ''Solana'', mcfg_tier = ''blue-chip''\<rparr>,
      \<lparr>mcfg_id = ''bonk'', mcfg_symbol = ''BONK'', mcfg_name = ''Bonk'', mcfg_tier = ''meme''\<rparr>,
      \<lparr>mcfg_id = ''dogwifcoin'', mcfg_symbol = ''WIF'', mcfg_name = ''dogwifhat'', mcfg_tier = ''meme''\<rparr>,
      \<lparr>mcfg_id = ''jupiter-exchange-solana'', mcfg_symbol = ''JUP'', mcfg_name = ''Jupiter'', mcfg_tier = ''defi''\<rparr>,
      \<lparr>mcfg_id = ''pyth-network'', mcfg_symbol = ''PYTH'', mcfg_name = ''Pyth'', mcfg_tier = ''infra''\<rparr>,
      \<lparr>mcfg_id = ''raydium'', mcfg_symbol = ''RAY'', mcfg_name = ''Raydium'', mcfg_tier = ''defi''\<rparr>,
      \<lparr>mcfg_id = ''render-token'', mcfg_symbol = ''RENDER'', mcfg_name = ''Render'', mcfg_tier = ''ai''\<rparr>,
      \<lparr>mcfg_id = ''jito-governance-token'', mcfg_symbol = ''JTO'', mcfg_name = ''Jito'', mcfg_tier = ''infra''\<rparr>]"

record home =
  h_balance :: real
  h_positions :: "home_position list"
  h_trades :: "home_trade list"
  h_tokens :: "home_token list"

definition home_init :: home where
  "home_init = \<lparr>h_balance = INITIAL_BALANCE, h_positions = [], h_trades = [], h_tokens = []\<rparr>"

section \<open>Manual simulator: operations\<close>

text \<open>The object literals \<^verbatim>\<open>{ ...pos, status, closePrice, closePnL }\<close> and
  \<^verbatim>\<open>{ ...position, status: 'OPEN' }\<close>.\<close>

definition closedTrade :: "home_position \<Rightarrow> status \<Rightarrow> real \<Rightarrow> real \<Rightarrow> home_trade" where
  "closedTrade pos s closePrice closePnL =
     home_position.extend pos
       (home_trade.fields s (Some closePrice) (Some closePnL))"

definition openTrade :: "home_position \<Rightarrow> home_trade" where
  "openTrade pos = home_position.extend pos (home_trade.fields OPEN None None)"

text \<open>
  The body of the \<^verbatim>\<open>forEach\<close> in \<^verbatim>\<open>checkPositions\<close> of page.tsx, for one
  position: \<^verbatim>\<open>stillOpen\<close>, \<^verbatim>\<open>toClose\<close> and the state that \<^verbatim>\<open>setBalance\<close>
  changes are threaded through.
\<close>

definition home_checkPosition ::
  "home_token list \<Rightarrow> home_position \<Rightarrow> home_position list \<times> home_trade list \<times> home \<Rightarrow>
     home_position list \<times> home_trade list \<times> home" where
  "home_checkPosition currentTokens pos acc =
     (let (stillOpen, toClose, st) = acc in
      case find (\<lambda>t. mtok_symbol t = mpos_symbol pos) currentTokens of
        None \<Rightarrow> (stillOpen @ [pos], toClose, st)
      | Some token \<Rightarrow>
          (let currentPrice = mtok_price token;
               pnlUSD = (currentPrice - mpos_entryPrice pos) * mpos_quantity pos;
               pnlEUR = pnlUSD * EUR_RATE
           in if currentPrice \<le> mpos_stopLoss pos then
                (stillOpen, toClose @ [closedTrade pos SL_HIT currentPrice pnlEUR],
                 st\<lparr>h_balance := h_balance st + mpos_valueEUR pos + pnlEUR\<rparr>)
              else if currentPrice \<ge> mpos_takeProfit pos then
                (stillOpen, toClose @ [closedTrade pos TP_HIT currentPrice pnlEUR],
                 st\<lparr>h_balance := h_balance st + mpos_valueEUR pos + pnlEUR\<rparr>)
              else (stillOpen @ [pos], toClose, st)))"

fun home_checkPositions_loop ::
  "home_token list \<Rightarrow> home_position list \<Rightarrow> home_position list \<times> home_trade list \<times> home \<Rightarrow>
     home_position list \<times> home_trade list \<times> home" where
  "home_checkPositions_loop currentTokens [] acc = acc"
| "home_checkPositions_loop currentTokens (pos # rest) acc =
     home_checkPositions_loop currentTokens rest (home_checkPosition currentTokens pos acc)"

definition home_checkPositions :: "home_token list \<Rightarrow> home \<Rightarrow> home" where
  "home_checkPositions currentTokens st =
     (let (stillOpen, toClose, st1) =
            home_checkPositions_loop currentTokens (h_positions st) ([], [], st);
          st2 = (if length toClose > 0 then st1\<lparr>h_trades := toClose @ h_trades st1\<rparr> else st1)
      in st2\<lparr>h_positions := stillOpen\<rparr>)"

definition home_updateToken :: "api_data \<Rightarrow> home_token_cfg \<Rightarrow> home_token" where
  "home_updateToken data t =
     \<lparr>mtok_id = mcfg_id t, mtok_symbol = mcfg_symbol t, mtok_name = mcfg_name t,
      mtok_price = data_usd data (mcfg_id t),
      mtok_change24h = data_change data (mcfg_id t),
      mtok_tier = mcfg_tier t\<rparr>"

definition home_fetchPrices :: "api_data option \<Rightarrow> home \<Rightarrow> home" where
  "home_fetchPrices response st =
     (case response of
        None \<Rightarrow> st
      | Some data \<Rightarrow>
          (let updatedTokens = map (home_updateToken data) TOKENS
           in home_checkPositions updatedTokens (st\<lparr>h_tokens := updatedTokens\<rparr>)))"

text \<open>\<^verbatim>\<open>executeTrade(symbol)\<close>; \<open>now\<close> is the value of \<^verbatim>\<open>Date.now()\<close>.\<close>

definition executeTrade :: "nat \<Rightarrow> string \<Rightarrow> home \<Rightarrow> home" where
  "executeTrade now symbol st =
     (case find (\<lambda>t. mtok_symbol t = symbol) (h_tokens st) of
        None \<Rightarrow> st
      | Some token \<Rightarrow>
          if mtok_price token = 0 then st
          else
            (let tradeSize = min 100 (h_balance st * (1 / 10)) in
             if tradeSize < 10 then st
             else
               (let tradeSizeUSD = tradeSize / EUR_RATE;
                    quantity = tradeSizeUSD / mtok_price token;
                    position =
                      \<lparr>mpos_id = now, mpos_symbol = symbol,
                       mpos_entryPrice = mtok_price token, mpos_quantity = quantity,
                       mpos_valueEUR = tradeSize,
                       mpos_stopLoss = mtok_price token * (1 - STOP_LOSS),
                       mpos_takeProfit = mtok_price token * (1 + TAKE_PROFIT)\<rparr>
                in st\<lparr>h_balance := h_balance st - tradeSize,
                       h_positions := h_positions st @ [position],
                       h_trades := openTrade position # h_trades st\<rparr>)))"

text \<open>
  The \<^verbatim>\<open>onClick\<close> handler of a token's button in the market grid:
  \<^verbatim>\<open>() => !hasPosition && executeTrade(token.symbol)\<close>, with
  \<^verbatim>\<open>hasPosition = positions.some(p => p.symbol === token.symbol)\<close>.
\<close>

definition tokenButton_onClick :: "nat \<Rightarrow> string \<Rightarrow> home \<Rightarrow> home" where
  "tokenButton_onClick now symbol st =
     (let hasPosition = list_ex (\<lambda>p. mpos_symbol p = symbol) (h_positions st)
      in if \<not> hasPosition then executeTrade now symbol st else st)"

text \<open>
  \<^verbatim>\<open>closePosition(posId)\<close>. The price is \<^verbatim>\<open>token?.price || pos.entryPrice\<close>: the
  entry price when the symbol has no token or its price is zero.
\<close>

definition closePosition :: "nat \<Rightarrow> home \<Rightarrow> home" where
  "closePosition posId st =
     (case find (\<lambda>p. mpos_id p = posId) (h_positions st) of
        None \<Rightarrow> st
      | Some pos \<Rightarrow>
          (let token = find (\<lambda>t. mtok_symbol t = mpos_symbol pos) (h_tokens st);
               currentPrice =
                 (case token of
                    None \<Rightarrow> mpos_entryPrice pos
                  | Some t \<Rightarrow> if mtok_price t = 0 then mpos_entryPrice pos else mtok_price t);
               pnlUSD = (currentPrice - mpos_entryPrice pos) * mpos_quantity pos;
               pnlEUR = pnlUSD * EUR_RATE
           in st\<lparr>h_balance := h_balance st + mpos_valueEUR pos + pnlEUR,
                  h_trades := closedTrade pos CLOSED currentPrice pnlEUR # h_trades st,
                  h_positions := filter (\<lambda>p. mpos_id p \<noteq> posId) (h_positions st)\<rparr>))"

text \<open>\<^verbatim>\<open>resetAll\<close>; \<open>confirmed\<close> is the answer to the \<^verbatim>\<open>confirm\<close> dialog.\<close>

definition resetAll :: "bool \<Rightarrow> home \<Rightarrow> home" where
  "resetAll confirmed st =
     (if confirmed then st\<lparr>h_balance := INITIAL_BALANCE, h_positions := [], h_trades := []\<rparr>
      else st)"

text \<open>
  The states of the simulator. \<open>home_reachable\<close> lets the user call every operation of
  the component directly, \<^verbatim>\<open>executeTrade\<close> included; \<open>home_ui_reachable\<close> opens
  positions through the token buttons only and takes any answer of the provider.
  \<open>home_feed_ok\<close> admits the answers whose prices for the configured tokens are not
  negative.
\<close>

definition home_feed_ok :: "api_data option \<Rightarrow> bool" where
  "home_feed_ok response =
     (case response of
        None \<Rightarrow> True
      | Some data \<Rightarrow> list_all (\<lambda>t. 0 \<le> data_usd data (mcfg_id t)) TOKENS)"

inductive home_reachable :: "home \<Rightarrow> bool" where
  hr_start: "home_reachable home_init"
| hr_tick: "home_reachable st \<Longrightarrow> home_feed_ok response \<Longrightarrow>
     home_reachable (home_fetchPrices response st)"
| hr_open: "home_reachable st \<Longrightarrow> home_reachable (executeTrade now symbol st)"
| hr_close: "home_reachable st \<Longrightarrow> home_reachable (closePosition posId st)"
| hr_reset: "home_reachable st \<Longrightarrow> home_reachable (resetAll confirmed st)"


section \<open>What a step of the exit check did\<close>

text \<open>
  A step of the bot's exit check closed the position with reason \<open>r\<close> when it left
  \<^verbatim>\<open>stillOpen\<close> as it was and put one trade in front of the history, made from the
  position, with that reason. A step of the simulator's exit check closed the position
  with status \<open>s\<close> when it left \<^verbatim>\<open>stillOpen\<close> as it was and appended one trade to
  \<^verbatim>\<open>toClose\<close>, extending the position, with that status.
\<close>

definition closes_with ::
  "reason \<Rightarrow> position \<Rightarrow> position list \<times> bot \<Rightarrow> position list \<times> bot \<Rightarrow> bool" where
  "closes_with r pos before after =
     (fst after = fst before \<and>
      (case trades (snd after) of
         [] \<Rightarrow> False
       | t # ts \<Rightarrow>
           ts = trades (snd before) \<and> trd_reason t = r \<and> trd_id t = pos_id pos \<and>
           trd_symbol t = pos_symbol pos))"

definition home_closes_with ::
  "status \<Rightarrow> home_position \<Rightarrow> home_position list \<times> home_trade list \<times> home \<Rightarrow>
     home_position list \<times> home_trade list \<times> home \<Rightarrow> bool" where
  "home_closes_with s pos before after =
     (fst after = fst before \<and>
      fst (snd after) \<noteq> [] \<and>
      butlast (fst (snd after)) = fst (snd before) \<and>
      mtrd_status (last (fst (snd after))) = s \<and>
      home_position.truncate (last (fst (snd after))) = pos)"

section \<open>The indicator as the specification words it\<close>

text \<open>
  The specification describes the RSI over the list of price deltas: the most recent
  \<open>period\<close> deltas, the sum of the positive ones, and the sum of the absolute values
  of the negative ones. These definitions follow that wording; they are compared with
  \<^const>\<open>calculateRSI\<close> below.
\<close>

fun spec_deltas :: "real list \<Rightarrow> real list" where
  "spec_deltas (x # y # zs) = (y - x) # spec_deltas (y # zs)"
| "spec_deltas _ = []"

definition spec_recent :: "nat \<Rightarrow> 'a list \<Rightarrow> 'a list" where
  "spec_recent k xs = drop (length xs - k) xs"

definition spec_gains :: "real list \<Rightarrow> real" where
  "spec_gains ds = sum_list (filter (\<lambda>d. d > 0) ds)"

definition spec_losses :: "real list \<Rightarrow> real" where
  "spec_losses ds = sum_list (map abs (filter (\<lambda>d. d < 0) ds))"

definition spec_rsi :: "real list \<Rightarrow> nat \<Rightarrow> real" where
  "spec_rsi history period =
     (if length history < period + 1 then 50
      else
        (let ds = spec_recent period (spec_deltas history);
             avgGain = spec_gains ds / real period;
             avgLoss = spec_losses ds / real period
         in if avgLoss = 0 then 100 else 100 - 100 / (1 + avgGain / avgLoss)))"

section \<open>Invariants\<close>






section \<open>Sample inputs\<close>

text \<open>
  Closed inputs on which the theorems below are instantiated: a SOL token of the bot at a
  given price and signal, a SOL position of the bot entered at 100 with 150 allocated,
  and their counterparts in the simulator (92 allocated, hence quantity 1 at the rate
  0.92). The stop-loss and take-profit prices are parameters.
\<close>

definition sample_token :: "real \<Rightarrow> signal \<Rightarrow> token" where
  "sample_token p s =
     \<lparr>tok_symbol = ''SOL'', tok_name = ''Solana'', tok_price = p, tok_prevPrice = p,
      tok_change24h = 0, tok_rsi = 50, tok_signal = s\<rparr>"

definition sample_position :: "real \<Rightarrow> real \<Rightarrow> position" where
  "sample_position sl tp =
     \<lparr>pos_id = 1, pos_symbol = ''SOL'', pos_entryPrice = 100, pos_currentPrice = 100,
      pos_quantity = 3 / 2, pos_valueEUR = 150, pos_pnl = 0, pos_pnlPercent = 0,
      pos_stopLoss = sl, pos_takeProfit = tp\<rparr>"

definition sample_bot :: "position list \<Rightarrow> bot" where
  "sample_bot ps =
     \<lparr>balance = 850, positions = ps, trades = [], tokens = [], isRunning = True,
      priceHistory = Map.empty\<rparr>"

definition home_sample_token :: "real \<Rightarrow> home_token" where
  "home_sample_token p =
     \<lparr>mtok_id = ''solana'', mtok_symbol = ''SOL'', mtok_name = ''Solana'', mtok_price = p,
      mtok_change24h = 0, mtok_tier = ''blue-chip''\<rparr>"

definition home_sample_position :: "real \<Rightarrow> real \<Rightarrow> home_position" where
  "home_sample_position sl tp =
     \<lparr>mpos_id = 1, mpos_symbol = ''SOL'', mpos_entryPrice = 100, mpos_quantity = 1,
      mpos_valueEUR = 92, mpos_stopLoss = sl, mpos_takeProfit = tp\<rparr>"

definition home_sample :: "home_position list \<Rightarrow> home_token list \<Rightarrow> home" where
  "home_sample ps ts = \<lparr>h_balance = 908, h_positions = ps, h_trades = [], h_tokens = ts\<rparr>"

text \<open>An answer of the provider that quotes SOL alone, and one that quotes nothing.\<close>

definition sol_only :: "real \<Rightarrow> api_data" where
  "sol_only p = [''solana'' \<mapsto> \<lparr>usd = Some p, usd_24h_change = Some 0\<rparr>]"

definition no_quotes :: api_data where
  "no_quotes = Map.empty"

section \<open>Unfolding the configuration\<close>

lemmas CONFIG_defs =
  CONFIG_INITIAL_BALANCE_def CONFIG_POSITION_SIZE_def CONFIG_MAX_POSITIONS_def
  CONFIG_STOP_LOSS_def CONFIG_TAKE_PROFIT_def CONFIG_RSI_BUY_def CONFIG_RSI_SELL_def
  CONFIG_MIN_CHANGE_BUY_def

lemmas home_consts = INITIAL_BALANCE_def STOP_LOSS_def TAKE_PROFIT_def EUR_RATE_def

lemmas sample_defs = sample_token_def sample_position_def sample_bot_def
  home_sample_token_def home_sample_position_def home_sample_def sol_only_def no_quotes_def

lemmas tick_defs = fetchPrices_def TOKENS_CONFIG_def updateToken_def Let_def
  data_usd_def data_change_def or_zero_def push_history_def calculateRSI_def
  getSignal_def CONFIG_defs processSignals_def processSignal_def openPosition_def
  checkPositions_def checkPosition_def closeTrade_def mkTrade_def toggleBot_def bot_init_def
  sol_only_def no_quotes_def

lemmas home_tick_defs = home_fetchPrices_def TOKENS_def home_updateToken_def Let_def
  data_usd_def data_change_def or_zero_def home_consts home_checkPositions_def
  home_checkPosition_def executeTrade_def closePosition_def tokenButton_onClick_def
  home_init_def sol_only_def no_quotes_def closedTrade_def openTrade_def
  home_position.defs home_trade.defs

section \<open>Properties of the signal classifier\<close>

text \<open>
  Claim C2. For every \<open>rsi\<close> and 24h change the classifier returns BUY exactly when
  \<open>rsi < 35\<close> and \<open>change24h < -3\<close>, SELL exactly when \<open>rsi > 70\<close> and the BUY
  condition fails, and HOLD in every other case; on the four sample inputs of the
  specification it returns BUY, HOLD, SELL and HOLD.
\<close>

theorem getSignal_policy:
  "(getSignal rsi change24h = BUY \<longleftrightarrow> rsi < 35 \<and> change24h < - 3) \<and>
   (getSignal rsi change24h = SELL \<longleftrightarrow> rsi > 70 \<and> \<not> (rsi < 35 \<and> change24h < - 3)) \<and>
   (getSignal rsi change24h = HOLD \<longleftrightarrow>
      \<not> (rsi < 35 \<and> change24h < - 3) \<and> \<not> (rsi > 70 \<and> \<not> (rsi < 35 \<and> change24h < - 3))) \<and>
   getSignal 30 (- 5) = BUY \<and> getSignal 30 (- 1) = HOLD \<and>
   getSignal 75 2 = SELL \<and> getSignal 50 0 = HOLD"
  by (simp add: getSignal_def CONFIG_RSI_BUY_def CONFIG_RSI_SELL_def CONFIG_MIN_CHANGE_BUY_def)

theorem getSignal_policy_witness:
  "getSignal 20 (- 4) = BUY \<and> getSignal 80 (- 4) = SELL \<and> getSignal 35 (- 4) = HOLD"
  using getSignal_policy [of 20 "- 4"] getSignal_policy [of 80 "- 4"]
    getSignal_policy [of 35 "- 4"]
  by simp

section \<open>The indicator\<close>

lemma pos_neg_sums:
  "sum_list (map abs (filter (\<lambda>d. d < 0) ds)) = (\<Sum>d\<leftarrow>ds. if d > 0 then 0 else - d)"
  "sum_list (filter (\<lambda>d. d > 0) ds) = (\<Sum>d\<leftarrow>ds. if d > 0 then d else (0::real))"
  by (induction ds) auto

lemma rsi_loop_sums:
  "rsi_loop prices i gains losses =
     (gains + (\<Sum>j\<leftarrow>[i..<length prices]. let c = prices ! j - prices ! (j - 1) in if c > 0 then c else 0),
      losses + (\<Sum>j\<leftarrow>[i..<length prices]. let c = prices ! j - prices ! (j - 1) in if c > 0 then 0 else - c))"
proof (induction prices i gains losses rule: rsi_loop.induct)
  case (1 prices i gains losses)
  show ?case
  proof (cases "i < length prices")
    case True
    then have upt: "[i..<length prices] = i # [i + 1..<length prices]"
      by (simp add: upt_conv_Cons)
    show ?thesis
    proof (cases "prices ! i - prices ! (i - 1) > 0")
      case pos: True
      with True "1.IH"(1) [OF True refl pos] show ?thesis
        by (subst rsi_loop.simps) (simp add: upt Let_def)
    next
      case neg: False
      with True "1.IH"(2) [OF True refl neg] show ?thesis
        by (subst rsi_loop.simps) (simp add: upt Let_def)
    qed
  next
    case False
    then show ?thesis by (subst rsi_loop.simps) simp
  qed
qed

lemma spec_deltas_nth:
  "spec_deltas xs = map (\<lambda>j. xs ! (j + 1) - xs ! j) [0..<length xs - 1]"
proof (induction xs rule: spec_deltas.induct)
  case (1 x y zs)
  have "[0..<length (x # y # zs) - 1] = 0 # map Suc [0..<length (y # zs) - 1]"
    by (simp add: upt_conv_Cons map_Suc_upt del: upt_Suc)
  with 1 show ?case by (simp add: comp_def del: upt_Suc)
qed simp_all

lemma spec_recent_deltas:
  assumes "period + 1 \<le> length xs"
  shows "spec_recent period (spec_deltas xs) =
     map (\<lambda>j. xs ! j - xs ! (j - 1)) [length xs - period..<length xs]"
proof -
  let ?n = "length xs"
  have "spec_recent period (spec_deltas xs) = map (\<lambda>j. xs ! (j + 1) - xs ! j) [?n - 1 - period..<?n - 1]"
    using assms by (simp add: spec_recent_def spec_deltas_nth drop_map drop_upt)
  also have "[?n - period..<?n] = map Suc [?n - 1 - period..<?n - 1]"
  proof -
    have "Suc (?n - 1 - period) = ?n - period" "Suc (?n - 1) = ?n"
      using assms by simp_all
    then show ?thesis by (simp only: map_Suc_upt)
  qed
  then have "map (\<lambda>j. xs ! (j + 1) - xs ! j) [?n - 1 - period..<?n - 1] =
     map (\<lambda>j. xs ! j - xs ! (j - 1)) [?n - period..<?n]"
    by (simp add: comp_def)
  finally show ?thesis .
qed

lemma calculateRSI_spec: "calculateRSI prices period = spec_rsi prices period"
proof (cases "length prices < period + 1")
  case True
  then show ?thesis by (simp add: calculateRSI_def spec_rsi_def)
next
  case False
  then have len: "period + 1 \<le> length prices" by simp
  show ?thesis
    using False
    by (simp add: calculateRSI_def spec_rsi_def rsi_loop_sums spec_recent_deltas [OF len]
        spec_gains_def spec_losses_def pos_neg_sums Let_def comp_def)
qed

lemma spec_gains_nonneg: "0 \<le> spec_gains ds"
  unfolding spec_gains_def by (induction ds) auto

lemma spec_losses_nonneg: "0 \<le> spec_losses ds"
  unfolding spec_losses_def by (induction ds) auto

lemma rsi_formula_range:
  fixes g l :: real
  assumes "0 \<le> g" "0 < l"
  shows "0 \<le> 100 - 100 / (1 + g / l)" "100 - 100 / (1 + g / l) \<le> 100"
proof -
  define d where "d = 1 + g / l"
  have d: "1 \<le> d" using assms by (simp add: d_def)
  then have "100 / d \<le> 100" by (simp add: pos_divide_le_eq)
  then show "0 \<le> 100 - 100 / (1 + g / l)" by (simp add: d_def)
  have "0 \<le> 100 / d" using d by simp
  then show "100 - 100 / (1 + g / l) \<le> 100" by (simp add: d_def)
qed

lemma spec_rsi_range: "0 \<le> spec_rsi h p \<and> spec_rsi h p \<le> 100"
proof (cases "length h < p + 1")
  case True
  then show ?thesis by (simp add: spec_rsi_def)
next
  case False
  define ds where "ds = spec_recent p (spec_deltas h)"
  have g: "0 \<le> spec_gains ds / real p" using spec_gains_nonneg [of ds] by simp
  have l: "0 \<le> spec_losses ds / real p" using spec_losses_nonneg [of ds] by simp
  show ?thesis
  proof (cases "spec_losses ds / real p = 0")
    case True
    with False show ?thesis by (simp add: spec_rsi_def Let_def ds_def)
  next
    case nz: False
    with l have "0 < spec_losses ds / real p" by linarith
    from rsi_formula_range [OF g this] False nz show ?thesis
      by (simp add: spec_rsi_def Let_def ds_def)
  qed
qed

text \<open>
  Claim C1. With the period 14, \<open>calculateRSI\<close> is the indicator as the
  specification words it (\<open>spec_rsi\<close>): 50 for a history of fewer than 15 prices;
  otherwise, over the 14 most recent deltas, \<open>gains\<close> is the sum of the positive
  deltas and \<open>losses\<close> the sum of the absolute values of the negative ones,
  \<open>avgGain = gains / 14\<close>, \<open>avgLoss = losses / 14\<close>, the result is 100 when
  \<open>avgLoss = 0\<close> and \<open>100 - 100 / (1 + avgGain / avgLoss)\<close> otherwise. The
  result lies between 0 and 100.
\<close>

theorem calculateRSI_correct:
  "calculateRSI prices 14 = spec_rsi prices 14 \<and>
   0 \<le> calculateRSI prices 14 \<and> calculateRSI prices 14 \<le> 100"
  using spec_rsi_range [of prices 14] by (simp add: calculateRSI_spec)

theorem calculateRSI_correct_witness:
  "calculateRSI [9, 1, 2, 3] 14 = 50 \<and> spec_rsi [9, 1, 2, 3] 14 = 50 \<and>
   calculateRSI [1, 2, 3, 4, 5, 6, 7, 8, 9, 10, 11, 12, 13, 14, 15] 14 = 100 \<and>
   spec_rsi [1, 2, 3, 4, 5, 6, 7, 8, 9, 10, 11, 12, 13, 14, 15] 14 = 100 \<and>
   calculateRSI [9, 1, 2, 3, 4, 5, 6, 7, 8, 9, 10, 11, 12, 13, 14, 13] 14 = 650 / 7 \<and>
   spec_rsi [9, 1, 2, 3, 4, 5, 6, 7, 8, 9, 10, 11, 12, 13, 14, 13] 14 = 650 / 7"
  using calculateRSI_correct [of "[9, 1, 2, 3]"]
    calculateRSI_correct [of "[1, 2, 3, 4, 5, 6, 7, 8, 9, 10, 11, 12, 13, 14, 15]"]
    calculateRSI_correct [of "[9, 1, 2, 3, 4, 5, 6, 7, 8, 9, 10, 11, 12, 13, 14, 13]"]
  by (simp add: calculateRSI_def rsi_loop.simps)

section \<open>Exit checks\<close>

lemma closes_with_closeTrade:
  "closes_with r pos (stillOpen, st) (stillOpen', closeTrade pos p r' st) \<longleftrightarrow>
     stillOpen' = stillOpen \<and> r' = r"
  by (auto simp: closes_with_def closeTrade_def mkTrade_def Let_def)

lemma closes_with_same_trades:
  "trades st' = trades st \<Longrightarrow> \<not> closes_with r pos (stillOpen, st) (stillOpen', st')"
  by (auto simp: closes_with_def split: list.splits)


lemma home_closes_with_same_toClose:
  "\<not> home_closes_with s pos (stillOpen, toClose, st) (stillOpen', toClose, st')"
proof
  assume "home_closes_with s pos (stillOpen, toClose, st) (stillOpen', toClose, st')"
  then have ne: "toClose \<noteq> []" and "butlast toClose = toClose"
    by (simp_all add: home_closes_with_def)
  then have "length (butlast toClose) = length toClose" by simp
  then have "length toClose - 1 = length toClose" by (simp only: length_butlast)
  with ne show False by (cases toClose) simp_all
qed



section \<open>Opening and closing\<close>

lemma balance_closeTrade:
  "balance (closeTrade pos p r st) =
     balance st + pos_valueEUR pos + (p - pos_entryPrice pos) * pos_quantity pos"
  by (simp add: closeTrade_def Let_def)

lemma trades_closeTrade: "trades (closeTrade pos p r st) = mkTrade pos p r # trades st"
  by (simp add: closeTrade_def Let_def)

lemma mkTrade_fields:
  "trd_pnl (mkTrade pos p r) = (p - pos_entryPrice pos) * pos_quantity pos"
  "trd_result (mkTrade pos p r) =
     (if (p - pos_entryPrice pos) * pos_quantity pos \<ge> 0 then WIN else LOSS)"
  "trd_reason (mkTrade pos p r) = r"
  "trd_exitPrice (mkTrade pos p r) = p"
  by (simp_all add: mkTrade_def Let_def)



text \<open>
  Claim C10. In the simulator, when \<open>closePosition\<close> finds the position and its symbol
  has no token, or a token of price zero, the position is closed at its entry price: the
  balance grows by exactly the position's allocated value, and the trade put in front of
  the history has \<open>closePrice\<close> equal to the entry price, \<open>closePnL\<close> zero and
  status CLOSED; the positions with that id leave the open list.
\<close>

theorem manual_close_without_quote:
  assumes "find (\<lambda>p. mpos_id p = posId) (h_positions st) = Some pos"
    and "(case find (\<lambda>t. mtok_symbol t = mpos_symbol pos) (h_tokens st) of
            None \<Rightarrow> True
          | Some t \<Rightarrow> mtok_price t = 0)"
  shows "h_balance (closePosition posId st) = h_balance st + mpos_valueEUR pos \<and>
         h_trades (closePosition posId st) =
           closedTrade pos CLOSED (mpos_entryPrice pos) 0 # h_trades st \<and>
         mtrd_closePrice (hd (h_trades (closePosition posId st))) = Some (mpos_entryPrice pos) \<and>
         mtrd_closePnL (hd (h_trades (closePosition posId st))) = Some 0 \<and>
         mtrd_status (hd (h_trades (closePosition posId st))) = CLOSED \<and>
         h_positions (closePosition posId st) =
           filter (\<lambda>p. mpos_id p \<noteq> posId) (h_positions st)"
  using assms
  by (auto simp: closePosition_def Let_def closedTrade_def home_position.defs home_trade.defs
      split: option.splits)
theorem manual_close_without_quote_witness:
  "find (\<lambda>p. mpos_id p = 1) (h_positions (home_sample [home_sample_position 97 106] [])) =
     Some (home_sample_position 97 106) \<and>
   h_balance (closePosition 1 (home_sample [home_sample_position 97 106] [])) = 1000 \<and>
   h_balance (closePosition 1
     (home_sample [home_sample_position 97 106] [home_sample_token 0])) = 1000 \<and>
   mtrd_closePrice (hd (h_trades (closePosition 1
     (home_sample [home_sample_position 97 106] [home_sample_token 0])))) = Some 100 \<and>
   h_positions (closePosition 1
     (home_sample [home_sample_position 97 106] [home_sample_token 0])) = []"
proof -
  have h: "find (\<lambda>p. mpos_id p = 1) (h_positions (home_sample [home_sample_position 97 106] [])) =
     Some (home_sample_position 97 106)"
    "find (\<lambda>p. mpos_id p = 1)
       (h_positions (home_sample [home_sample_position 97 106] [home_sample_token 0])) =
     Some (home_sample_position 97 106)"
    by (simp_all add: sample_defs)
  show ?thesis
    using h manual_close_without_quote [OF h(1)] manual_close_without_quote [OF h(2)]
    by (simp add: sample_defs closedTrade_def home_position.defs home_trade.defs)
qed

section \<open>Invariants of the bot\<close>


































section \<open>Invariants of the simulator\<close>







lemma executeTrade_cases:
  "executeTrade now symbol st = st \<or>
   (\<exists>tok. find (\<lambda>t. mtok_symbol t = symbol) (h_tokens st) = Some tok \<and> mtok_price tok \<noteq> 0 \<and>
      10 \<le> min 100 (h_balance st * (1 / 10)) \<and>
      executeTrade now symbol st =
        st\<lparr>h_balance := h_balance st - min 100 (h_balance st * (1 / 10)),
           h_positions := h_positions st @
             [\<lparr>mpos_id = now, mpos_symbol = symbol, mpos_entryPrice = mtok_price tok,
               mpos_quantity = min 100 (h_balance st * (1 / 10)) / EUR_RATE / mtok_price tok,
               mpos_valueEUR = min 100 (h_balance st * (1 / 10)),
               mpos_stopLoss = mtok_price tok * (1 - STOP_LOSS),
               mpos_takeProfit = mtok_price tok * (1 + TAKE_PROFIT)\<rparr>],
           h_trades := openTrade
              \<lparr>mpos_id = now, mpos_symbol = symbol, mpos_entryPrice = mtok_price tok,
               mpos_quantity = min 100 (h_balance st * (1 / 10)) / EUR_RATE / mtok_price tok,
               mpos_valueEUR = min 100 (h_balance st * (1 / 10)),
               mpos_stopLoss = mtok_price tok * (1 - STOP_LOSS),
               mpos_takeProfit = mtok_price tok * (1 + TAKE_PROFIT)\<rparr> # h_trades st\<rparr>)"
proof (cases "find (\<lambda>t. mtok_symbol t = symbol) (h_tokens st)")
  case None
  then show ?thesis by (simp add: executeTrade_def)
next
  case (Some tok)
  define tv where "tv = min 100 (h_balance st * (1 / 10))"
  show ?thesis
  proof (cases "mtok_price tok = 0 \<or> tv < 10")
    case True
    then show ?thesis using Some by (auto simp: executeTrade_def Let_def tv_def)
  next
    case False
    then have "\<not> tv < 10" "mtok_price tok \<noteq> 0" by simp_all
    moreover from this have "10 \<le> tv" by simp
    ultimately show ?thesis using Some
      unfolding executeTrade_def Let_def tv_def [symmetric] by simp
  qed
qed












section \<open>The credit of a close\<close>

lemma closedTrade_fields:
  "mtrd_status (closedTrade pos s p q) = s"
  "mtrd_closePrice (closedTrade pos s p q) = Some p"
  "mtrd_closePnL (closedTrade pos s p q) = Some q"
  "home_position.truncate (closedTrade pos s p q) = pos"
  by (simp_all add: closedTrade_def home_position.defs home_trade.defs)

lemma openPosition_quantity:
  "positions (openPosition now b token st) = positions st \<or>
   pos_quantity (last (positions (openPosition now b token st))) =
     pos_valueEUR (last (positions (openPosition now b token st))) /
       pos_entryPrice (last (positions (openPosition now b token st)))"
  by (simp add: openPosition_def Let_def)

lemma executeTrade_quantity:
  "h_positions (executeTrade now symbol st) = h_positions st \<or>
   mpos_quantity (last (h_positions (executeTrade now symbol st))) =
     (mpos_valueEUR (last (h_positions (executeTrade now symbol st))) / EUR_RATE) /
       mpos_entryPrice (last (h_positions (executeTrade now symbol st)))"
  using executeTrade_cases [of now symbol st] by (elim disjE exE conjE) simp_all

text \<open>
  Claim C5, as amended. A close credits the balance with the allocated value plus the
  realized P&L, whatever the reason. In the bot, \<open>closeTrade\<close> at exit price
  \<open>p\<close> adds \<open>valueEUR + (p - entryPrice) * quantity\<close>, every closing step of the
  exit check is such a \<open>closeTrade\<close> at the token's price, and the recorded trade
  carries that P&L and the result WIN when it is \<open>\<ge> 0\<close>, LOSS otherwise. In the
  simulator a closing step of the exit check at the token's price, and
  \<open>closePosition\<close> at the price it uses, add
  \<open>valueEUR + (p - entryPrice) * quantity * EUR_RATE\<close> and record that price and that
  P&L; the simulator's trade record has a status (SL HIT, TP HIT, CLOSED) and no
  win/loss result. A position opened by \<open>openPosition\<close> has quantity
  \<open>valueEUR / entryPrice\<close>, one opened by \<open>executeTrade\<close> has quantity
  \<open>(valueEUR / EUR_RATE) / entryPrice\<close>.
\<close>

theorem close_credit:
  "balance (closeTrade pos p r st) =
     balance st + pos_valueEUR pos + (p - pos_entryPrice pos) * pos_quantity pos \<and>
   trades (closeTrade pos p r st) = mkTrade pos p r # trades st \<and>
   trd_exitPrice (mkTrade pos p r) = p \<and>
   trd_pnl (mkTrade pos p r) = (p - pos_entryPrice pos) * pos_quantity pos \<and>
   trd_result (mkTrade pos p r) =
     (if (p - pos_entryPrice pos) * pos_quantity pos \<ge> 0 then WIN else LOSS) \<and>
   (closes_with r pos acc (checkPosition currentTokens pos acc) \<longrightarrow>
      (case find (\<lambda>t. tok_symbol t = pos_symbol pos) currentTokens of
         None \<Rightarrow> False
       | Some token \<Rightarrow>
           snd (checkPosition currentTokens pos acc) =
             closeTrade pos (tok_price token) r (snd acc))) \<and>
   (home_closes_with s mpos macc (home_checkPosition homeTokens mpos macc) \<longrightarrow>
      (case find (\<lambda>t. mtok_symbol t = mpos_symbol mpos) homeTokens of
         None \<Rightarrow> False
       | Some mtoken \<Rightarrow>
           h_balance (snd (snd (home_checkPosition homeTokens mpos macc))) =
             h_balance (snd (snd macc)) + mpos_valueEUR mpos +
               (mtok_price mtoken - mpos_entryPrice mpos) * mpos_quantity mpos * EUR_RATE \<and>
           mtrd_closePrice (last (fst (snd (home_checkPosition homeTokens mpos macc)))) =
             Some (mtok_price mtoken) \<and>
           mtrd_closePnL (last (fst (snd (home_checkPosition homeTokens mpos macc)))) =
             Some ((mtok_price mtoken - mpos_entryPrice mpos) * mpos_quantity mpos * EUR_RATE))) \<and>
   (find (\<lambda>p. mpos_id p = posId) (h_positions hst) = Some mpos \<longrightarrow>
      (let closePrice =
             (case find (\<lambda>t. mtok_symbol t = mpos_symbol mpos) (h_tokens hst) of
                None \<Rightarrow> mpos_entryPrice mpos
              | Some t \<Rightarrow> if mtok_price t = 0 then mpos_entryPrice mpos else mtok_price t)
       in h_balance (closePosition posId hst) =
            h_balance hst + mpos_valueEUR mpos +
              (closePrice - mpos_entryPrice mpos) * mpos_quantity mpos * EUR_RATE \<and>
          h_trades (closePosition posId hst) =
            closedTrade mpos CLOSED closePrice
              ((closePrice - mpos_entryPrice mpos) * mpos_quantity mpos * EUR_RATE) #
            h_trades hst)) \<and>
   (positions (openPosition now b token st0) = positions st0 \<or>
    pos_quantity (last (positions (openPosition now b token st0))) =
      pos_valueEUR (last (positions (openPosition now b token st0))) /
        pos_entryPrice (last (positions (openPosition now b token st0)))) \<and>
   (h_positions (executeTrade now symbol hst0) = h_positions hst0 \<or>
    mpos_quantity (last (h_positions (executeTrade now symbol hst0))) =
      (mpos_valueEUR (last (h_positions (executeTrade now symbol hst0))) / EUR_RATE) /
        mpos_entryPrice (last (h_positions (executeTrade now symbol hst0))))"
proof -
  obtain stillOpen st' where acc: "acc = (stillOpen, st')" by (cases acc)
  obtain mstillOpen toClose hst' where macc: "macc = (mstillOpen, toClose, hst')"
    by (cases macc)
  have bot: "closes_with r pos acc (checkPosition currentTokens pos acc) \<longrightarrow>
      (case find (\<lambda>t. tok_symbol t = pos_symbol pos) currentTokens of
         None \<Rightarrow> False
       | Some token \<Rightarrow>
           snd (checkPosition currentTokens pos acc) =
             closeTrade pos (tok_price token) r (snd acc))"
    by (auto simp: acc checkPosition_def Let_def closes_with_closeTrade closes_with_same_trades
        split: option.splits)
  have home: "home_closes_with s mpos macc (home_checkPosition homeTokens mpos macc) \<longrightarrow>
      (case find (\<lambda>t. mtok_symbol t = mpos_symbol mpos) homeTokens of
         None \<Rightarrow> False
       | Some mtoken \<Rightarrow>
           h_balance (snd (snd (home_checkPosition homeTokens mpos macc))) =
             h_balance (snd (snd macc)) + mpos_valueEUR mpos +
               (mtok_price mtoken - mpos_entryPrice mpos) * mpos_quantity mpos * EUR_RATE \<and>
           mtrd_closePrice (last (fst (snd (home_checkPosition homeTokens mpos macc)))) =
             Some (mtok_price mtoken) \<and>
           mtrd_closePnL (last (fst (snd (home_checkPosition homeTokens mpos macc)))) =
             Some ((mtok_price mtoken - mpos_entryPrice mpos) * mpos_quantity mpos * EUR_RATE))"
    by (auto simp: macc home_checkPosition_def Let_def home_closes_with_same_toClose
        closedTrade_fields split: option.splits)
  have manual: "find (\<lambda>p. mpos_id p = posId) (h_positions hst) = Some mpos \<longrightarrow>
      (let closePrice =
             (case find (\<lambda>t. mtok_symbol t = mpos_symbol mpos) (h_tokens hst) of
                None \<Rightarrow> mpos_entryPrice mpos
              | Some t \<Rightarrow> if mtok_price t = 0 then mpos_entryPrice mpos else mtok_price t)
       in h_balance (closePosition posId hst) =
            h_balance hst + mpos_valueEUR mpos +
              (closePrice - mpos_entryPrice mpos) * mpos_quantity mpos * EUR_RATE \<and>
          h_trades (closePosition posId hst) =
            closedTrade mpos CLOSED closePrice
              ((closePrice - mpos_entryPrice mpos) * mpos_quantity mpos * EUR_RATE) #
            h_trades hst)"
    by (simp add: closePosition_def Let_def)
  from bot home manual openPosition_quantity [of now b token st0]
    executeTrade_quantity [of now symbol hst0]
  show ?thesis
    by (simp add: balance_closeTrade trades_closeTrade mkTrade_fields)
qed

theorem close_credit_witness:
  "balance (closeTrade (sample_position 97 108) 96 SL (sample_bot [])) = 850 + 150 - 6 \<and>
   trd_result (mkTrade (sample_position 97 108) 96 SL) = LOSS \<and>
   closes_with SL (sample_position 97 108) ([], sample_bot [])
     (checkPosition [sample_token 96 HOLD] (sample_position 97 108) ([], sample_bot [])) \<and>
   balance (snd (checkPosition [sample_token 96 HOLD] (sample_position 97 108)
     ([], sample_bot []))) = 850 + 150 - 6 \<and>
   home_closes_with TP_HIT (home_sample_position 97 106) ([], [], home_sample [] [])
     (home_checkPosition [home_sample_token 110] (home_sample_position 97 106)
        ([], [], home_sample [] [])) \<and>
   h_balance (snd (snd (home_checkPosition [home_sample_token 110] (home_sample_position 97 106)
        ([], [], home_sample [] [])))) = 908 + 92 + 92 / 10 \<and>
   find (\<lambda>p. mpos_id p = 1)
     (h_positions (home_sample [home_sample_position 97 106] [home_sample_token 90])) =
     Some (home_sample_position 97 106) \<and>
   h_balance (closePosition 1
     (home_sample [home_sample_position 97 106] [home_sample_token 90])) = 908 + 92 - 92 / 10"
  using close_credit [where pos = "sample_position 97 108" and p = 96 and r = SL
        and st = "sample_bot []" and acc = "([], sample_bot [])"
        and currentTokens = "[sample_token 96 HOLD]"
        and s = TP_HIT and mpos = "home_sample_position 97 106"
        and macc = "([], [], home_sample [] [])" and homeTokens = "[home_sample_token 110]"
        and posId = 1
        and hst = "home_sample [home_sample_position 97 106] [home_sample_token 90]"
        and now = 7 and b = 1000 and token = "sample_token 100 BUY" and st0 = bot_init
        and symbol = "''SOL''" and hst0 = home_init]
  by (simp add: sample_defs checkPosition_def home_checkPosition_def closePosition_def
      closeTrade_def mkTrade_def Let_def EUR_RATE_def closes_with_def home_closes_with_def
      closedTrade_fields)

text \<open>
  The claim as stated fails in the simulator: the trade that \<open>closePosition\<close>
  records is the position extended by status CLOSED, the close price and the P&L, the
  same status for a loss (closing at 90) and for a gain (closing at 104); no field of it
  is a WIN or LOSS result.
\<close>

theorem manual_close_records_no_result:
  "closedTrade (home_sample_position 97 106) CLOSED 90 (- (92 / 10)) =
     \<lparr>mpos_id = 1, mpos_symbol = ''SOL'', mpos_entryPrice = 100, mpos_quantity = 1,
      mpos_valueEUR = 92, mpos_stopLoss = 97, mpos_takeProfit = 106,
      mtrd_status = CLOSED, mtrd_closePrice = Some 90, mtrd_closePnL = Some (- (92 / 10))\<rparr> \<and>
   h_trades (closePosition 1
      (home_sample [home_sample_position 97 106] [home_sample_token 90])) =
     [closedTrade (home_sample_position 97 106) CLOSED 90 (- (92 / 10))] \<and>
   h_trades (closePosition 1
      (home_sample [home_sample_position 97 106] [home_sample_token 104])) =
     [closedTrade (home_sample_position 97 106) CLOSED 104 (368 / 100)] \<and>
   mtrd_status (closedTrade (home_sample_position 97 106) CLOSED 90 (- (92 / 10))) =
     mtrd_status (closedTrade (home_sample_position 97 106) CLOSED 104 (368 / 100))"
  by (simp add: closePosition_def Let_def sample_defs home_consts closedTrade_def
      home_position.defs home_trade.defs)

section \<open>Properties of the reachable states\<close>




lemma home_feed_ok_sol_only: "0 \<le> p \<Longrightarrow> home_feed_ok (Some (sol_only p))"
  by (simp add: home_feed_ok_def TOKENS_def data_usd_def or_zero_def sol_only_def)






section \<open>A tick without a price\<close>

text \<open>
  Claim C9 does not hold: a tick whose answer quotes no price for SOL gives the SOL token
  the price 0, and the exit check, which has no test for a zero price, finds
  \<open>0 \<le> stopLoss\<close> and closes the open SOL position at the exit price 0. In the
  simulator, after a tick quoting SOL at 100 and a trade on SOL (a position of 100, the
  balance at 900), a tick that quotes nothing closes the position with status SL HIT,
  close price 0 and a P&L of -100 and credits nothing. In the bot a position of 150 is
  closed with reason SL and a P&L of -150, and nothing is credited.
\<close>

theorem missing_price_stops_out:
  "home_reachable (executeTrade 1 ''SOL'' (home_fetchPrices (Some (sol_only 100)) home_init)) \<and>
   home_feed_ok (Some no_quotes) \<and>
   map mpos_symbol (h_positions
     (executeTrade 1 ''SOL'' (home_fetchPrices (Some (sol_only 100)) home_init))) = [''SOL''] \<and>
   h_balance (executeTrade 1 ''SOL'' (home_fetchPrices (Some (sol_only 100)) home_init)) = 900 \<and>
   h_positions (home_fetchPrices (Some no_quotes)
     (executeTrade 1 ''SOL'' (home_fetchPrices (Some (sol_only 100)) home_init))) = [] \<and>
   map mtrd_status (h_trades (home_fetchPrices (Some no_quotes)
     (executeTrade 1 ''SOL'' (home_fetchPrices (Some (sol_only 100)) home_init)))) =
     [SL_HIT, OPEN] \<and>
   map mtrd_closePrice (h_trades (home_fetchPrices (Some no_quotes)
     (executeTrade 1 ''SOL'' (home_fetchPrices (Some (sol_only 100)) home_init)))) =
     [Some 0, None] \<and>
   map mtrd_closePnL (h_trades (home_fetchPrices (Some no_quotes)
     (executeTrade 1 ''SOL'' (home_fetchPrices (Some (sol_only 100)) home_init)))) =
     [Some (- 100), None] \<and>
   h_balance (home_fetchPrices (Some no_quotes)
     (executeTrade 1 ''SOL'' (home_fetchPrices (Some (sol_only 100)) home_init))) = 900 \<and>
   positions (fetchPrices 2 (Some no_quotes) (sample_bot [sample_position 97 108])) = [] \<and>
   trades (fetchPrices 2 (Some no_quotes) (sample_bot [sample_position 97 108])) =
     [mkTrade (sample_position 97 108) 0 SL] \<and>
   trd_pnl (mkTrade (sample_position 97 108) 0 SL) = - 150 \<and>
   balance (fetchPrices 2 (Some no_quotes) (sample_bot [sample_position 97 108])) = 850"
proof -
  have r: "home_reachable (executeTrade 1 ''SOL'' (home_fetchPrices (Some (sol_only 100)) home_init))"
    by (intro home_reachable.intros home_feed_ok_sol_only) simp
  have f: "home_feed_ok (Some no_quotes)"
    by (simp add: home_feed_ok_def TOKENS_def data_usd_def or_zero_def no_quotes_def)
  have h: "map mpos_symbol (h_positions
     (executeTrade 1 ''SOL'' (home_fetchPrices (Some (sol_only 100)) home_init))) = [''SOL'']"
    "h_balance (executeTrade 1 ''SOL'' (home_fetchPrices (Some (sol_only 100)) home_init)) = 900"
    "h_positions (home_fetchPrices (Some no_quotes)
     (executeTrade 1 ''SOL'' (home_fetchPrices (Some (sol_only 100)) home_init))) = []"
    "map mtrd_status (h_trades (home_fetchPrices (Some no_quotes)
     (executeTrade 1 ''SOL'' (home_fetchPrices (Some (sol_only 100)) home_init)))) =
     [SL_HIT, OPEN]"
    "map mtrd_closePrice (h_trades (home_fetchPrices (Some no_quotes)
     (executeTrade 1 ''SOL'' (home_fetchPrices (Some (sol_only 100)) home_init)))) =
     [Some 0, None]"
    "map mtrd_closePnL (h_trades (home_fetchPrices (Some no_quotes)
     (executeTrade 1 ''SOL'' (home_fetchPrices (Some (sol_only 100)) home_init)))) =
     [Some (- 100), None]"
    "h_balance (home_fetchPrices (Some no_quotes)
     (executeTrade 1 ''SOL'' (home_fetchPrices (Some (sol_only 100)) home_init))) = 900"
    by (simp_all add: home_tick_defs)
  have b: "positions (fetchPrices 2 (Some no_quotes) (sample_bot [sample_position 97 108])) = []"
    "trades (fetchPrices 2 (Some no_quotes) (sample_bot [sample_position 97 108])) =
     [mkTrade (sample_position 97 108) 0 SL]"
    "trd_pnl (mkTrade (sample_position 97 108) 0 SL) = - 150"
    "balance (fetchPrices 2 (Some no_quotes) (sample_bot [sample_position 97 108])) = 850"
    by (simp_all add: tick_defs sample_defs)
  from r f h b show ?thesis by simp
qed

end
